theory Spec2Isabelle
  imports Main "HOL-Library.Sublist"
begin

section \<open>Text helpers\<close>

text \<open>
  Python text is modelled as \<^typ>\<open>string\<close>, read as the UTF-8 bytes of the text. Every
  character the program looks for (the reserved characters of the sanitizer, the letters
  of the two phrases of the error classification) is ASCII, and no byte of a multi-byte
  UTF-8 sequence is ASCII, so the byte-wise functions below decide as the code does.
\<close>

text \<open>\<^verbatim>\<open>d.get(key, default)\<close> on a dictionary.\<close>

definition dict_get :: "('k \<rightharpoonup> 'v) \<Rightarrow> 'k \<Rightarrow> 'v \<Rightarrow> 'v" where
  "dict_get d k dflt = (case d k of None \<Rightarrow> dflt | Some v \<Rightarrow> v)"

text \<open>
  \<^verbatim>\<open>str.lower()\<close>: the letters A to Z go to a to z. Python also lowers letters outside
  ASCII; only two of them give an ASCII letter, U+0130 (an i followed by U+0307) and
  U+212A (a k), and the phrases looked for in the lowered text have neither a k nor an i
  before U+0307, so leaving the other bytes as they are does not change what is found.
\<close>

definition lower_char :: "char \<Rightarrow> char" where
  "lower_char c =
     (case map_of (zip ''ABCDEFGHIJKLMNOPQRSTUVWXYZ'' ''abcdefghijklmnopqrstuvwxyz'') c of
        None \<Rightarrow> c
      | Some d \<Rightarrow> d)"

definition py_lower :: "string \<Rightarrow> string" where
  "py_lower s = map lower_char s"

text \<open>\<^verbatim>\<open>needle in haystack\<close> on text: the needle occurs as a contiguous piece.\<close>

fun str_in :: "string \<Rightarrow> string \<Rightarrow> bool" where
  "str_in needle [] = (needle = [])"
| "str_in needle (c # cs) = (prefix needle (c # cs) \<or> str_in needle cs)"

text \<open>\<^verbatim>\<open>str(n)\<close> for a number that is not negative: its decimal digits.\<close>

definition digit_char :: "nat \<Rightarrow> char" where
  "digit_char d = ''0123456789'' ! d"

function py_str :: "nat \<Rightarrow> string" where
  "py_str n = (if n < 10 then [digit_char n] else py_str (n div 10) @ [digit_char (n mod 10)])"
  by pat_completeness auto
termination
  by (relation "measure id") auto

declare py_str.simps [simp del]

text \<open>
  The words of the specification, a phrase "in any letter case": the text \<open>w\<close> is the
  phrase with some of its letters written as capitals. This does not refer to
  \<open>py_lower\<close>.
\<close>

definition upper_char :: "char \<Rightarrow> char" where
  "upper_char c =
     (case map_of (zip ''abcdefghijklmnopqrstuvwxyz'' ''ABCDEFGHIJKLMNOPQRSTUVWXYZ'') c of
        None \<Rightarrow> c
      | Some d \<Rightarrow> d)"

definition in_any_case :: "string \<Rightarrow> string \<Rightarrow> bool" where
  "in_any_case phrase w = list_all2 (\<lambda>p c. c = p \<or> c = upper_char p) phrase w"

section \<open>The name sanitizer (line 45)\<close>

text \<open>
  \<^verbatim>\<open>re.sub(r'[\\/:"*?<>|]+', '_', name)\<close>: every maximal run of characters of the class
  is replaced by one underscore. The class holds backslash, slash, colon, double quote,
  star, question mark, the two angle brackets and the bar.
\<close>

definition reserved_chars :: string where
  "reserved_chars =
     [CHR 0x5C, CHR ''/'', CHR '':'', CHR 0x22, CHR ''*'', CHR ''?'', CHR ''<'', CHR ''>'',
      CHR ''|'']"

definition reserved :: "char \<Rightarrow> bool" where
  "reserved c = (c \<in> set reserved_chars)"

function sanitize_folder_name :: "string \<Rightarrow> string" where
  "sanitize_folder_name [] = []"
| "sanitize_folder_name (c # cs) =
     (if reserved c then CHR ''_'' # sanitize_folder_name (dropWhile reserved cs)
      else c # sanitize_folder_name cs)"
  by pat_completeness auto
termination
  by (relation "measure length") (auto simp: less_Suc_eq_le length_dropWhile_le)


section \<open>The outside world\<close>

text \<open>
  An exception is kept with its text \<^verbatim>\<open>str(e)\<close>. \<open>PyException\<close> stands for the
  subclasses of \<^verbatim>\<open>Exception\<close>, which \<^verbatim>\<open>except Exception\<close> catches;
  \<open>PyBaseException\<close> for the others (\<^verbatim>\<open>KeyboardInterrupt\<close>, \<^verbatim>\<open>SystemExit\<close>), which
  it lets through.
\<close>

datatype py_exc = PyException string | PyBaseException string

text \<open>
  How \<^verbatim>\<open>ydl.download([url])\<close> ends. The options of line 109 hold
  \<^verbatim>\<open>'ignoreerrors': True\<close> (line 118), which asks yt-dlp to report an error of the download
  and go on: the call then returns the code 1 and does not raise. \<open>Returned\<close> is the return
  with the code 0, after the file was written; \<open>ReturnedError\<close> the return with the code 1,
  after an error that yt-dlp reported and ignored; \<open>Raised\<close> an exception that leaves
  the call.
\<close>

datatype fetch_result = Returned | ReturnedError | Raised py_exc

text \<open>A \<^verbatim>\<open>Path\<close> is the list of its parts; \<^verbatim>\<open>p / name\<close> appends one part.\<close>

type_synonym path = "string list"

type_synonym entry = "string \<rightharpoonup> string"

record info =
  info_title :: "string option"
  info_entries :: "entry list option"

text \<open>
  yt-dlp, the file system, the console of rich and the scheduler of the worker threads are
  not part of the program. They are functions on a state \<open>'w\<close> of the outside world, which
  every call receives and returns:
  \<^item> \<open>extract_info\<close>: the body of \<^verbatim>\<open>get_playlist_info\<close> (lines 87 to 95);
  \<^item> \<open>mkdir\<close>: \<^verbatim>\<open>playlist_folder.mkdir(parents=True, exist_ok=True)\<close> (line 183);
  \<^item> \<open>glob_mp3\<close>: the names of \<^verbatim>\<open>playlist_folder.glob("*.mp3")\<close> (line 192);
  \<^item> \<open>fetch\<close>: \<^verbatim>\<open>with YoutubeDL(ydl_opts) as ydl: ydl.download([url])\<close> with the
    output template at the given path (lines 109 to 127);
  \<^item> \<open>console_print\<close>: \<^verbatim>\<open>console.print(text)\<close> and \<^verbatim>\<open>console.rule(text)\<close>. The console
    reads its text as markup, and raises when it cannot: \<open>None\<close> when the line was
    printed, the exception otherwise;
  \<^item> \<open>sched\<close>: which worker threads take a step, and in which order, before the main
    thread takes its next one, as numbers of submitted jobs.
\<close>

record 'w env =
  extract_info :: "'w \<Rightarrow> string \<Rightarrow> (py_exc + info) \<times> 'w"
  mkdir :: "'w \<Rightarrow> path \<Rightarrow> py_exc option \<times> 'w"
  glob_mp3 :: "'w \<Rightarrow> path \<Rightarrow> (py_exc + string list) \<times> 'w"
  fetch :: "'w \<Rightarrow> string \<Rightarrow> path \<Rightarrow> fetch_result \<times> 'w"
  console_print :: "'w \<Rightarrow> string \<Rightarrow> py_exc option \<times> 'w"
  sched :: "'w \<Rightarrow> nat list \<times> 'w"

text \<open>What the program prints, does to the clock and asks of the backend, in order.\<close>

datatype event =
    SkippingAlready string
  | Downloading string
  | Finished string
  | ContentNotAvailable
  | ErrorDownloading string string
  | SkippingThisVideo
  | Sleep nat
  | Fetch string path
  | PlaylistRule nat nat
  | PlaylistUrl string
  | NoVideosFound string
  | PlaylistHeader string nat
  | CompletedPlaylist string
  | FailedPlaylist string
  | SkippingToNext

text \<open>
  The text that the program hands to the console for each line: the f-strings of lines
  104 and 214, 123, 129, 136, 138, 142, 175, 176, 187, 190, 222, 225 and 226. The title,
  the address and the text of the exception are put into the markup as they are.
  \<open>Sleep\<close> and \<open>Fetch\<close> are not lines and are never printed.
\<close>

fun markup :: "event \<Rightarrow> string" where
  "markup (SkippingAlready video_title) =
     '':arrow_forward: [yellow]Skipping already downloaded:[/] [bold]'' @ video_title @ ''[/]''"
| "markup (Downloading video_title) =
     '':arrow_down_small: [cyan]Downloading:[/] [bold]'' @ video_title @ ''[/]''"
| "markup (Finished video_title) =
     '':white_check_mark: [green]Finished:[/] [bold]'' @ video_title @ ''[/]''"
| "markup ContentNotAvailable =
     '':warning: [red]Content not available, waiting 10 seconds before continuing...[/]''"
| "markup (ErrorDownloading video_title e) =
     '':cross_mark: [red]Error downloading '' @ [CHR 0x27] @ video_title @ [CHR 0x27]
     @ '': '' @ e @ ''[/]''"
| "markup SkippingThisVideo = '':fast_forward: [yellow]Skipping this video.[/]''"
| "markup (Sleep n) = []"
| "markup (Fetch url output_path) = []"
| "markup (PlaylistRule idx n_urls) =
     ''[bold blue]Playlist '' @ py_str idx @ ''/'' @ py_str n_urls @ ''[/bold blue]''"
| "markup (PlaylistUrl url) = ''[bold]URL:[/] '' @ url"
| "markup (NoVideosFound playlist_title) =
     '':warning: [yellow]No videos found in playlist: '' @ playlist_title @ ''[/]''
     @ [CHR 0x0A]"
| "markup (PlaylistHeader playlist_title n) =
     ''[bold green]Playlist:[/] '' @ playlist_title @ '' ([cyan]'' @ py_str n
     @ '' videos[/cyan])'' @ [CHR 0x0A]"
| "markup (CompletedPlaylist playlist_title) =
     [CHR 0x0A] @ '':white_check_mark: [bold green]Completed playlist:[/] '' @ playlist_title
     @ [CHR 0x0A]"
| "markup (FailedPlaylist e) = '':cross_mark: [red]Failed to process playlist:[/] '' @ e"
| "markup SkippingToNext =
     '':fast_forward: [yellow]Skipping to next playlist...[/]'' @ [CHR 0x0A]"

section \<open>The download job (lines 97 to 144)\<close>

text \<open>Lines 98 to 100, and again lines 210 and 211: the name of the output file.\<close>

definition mp3_filename :: "entry \<Rightarrow> string" where
  "mp3_filename entry =
     (let video_title = dict_get entry ''title'' ''unknown_title'';
          safe_title = sanitize_folder_name video_title
      in safe_title @ ''.mp3'')"

text \<open>Lines 135 and 139: the test on the lowered text of the exception.\<close>

definition content_unavailable :: "string \<Rightarrow> bool" where
  "content_unavailable err =
     (str_in ''content isn't available'' err \<or> str_in ''try again later'' err)"

text \<open>\<^verbatim>\<open>str(KeyError('url'))\<close>, raised by \<^verbatim>\<open>entry['url']\<close> when the key is absent.\<close>

definition key_error_url :: string where
  "key_error_url = [CHR 0x27] @ ''url'' @ [CHR 0x27]"

text \<open>
  What a call of \<^verbatim>\<open>download_video\<close> leaves behind: the value it returns or the exception
  it lets through, the set \<^verbatim>\<open>existing_files\<close>, which the caller shares, what happened,
  and the outside world.
\<close>

record 'w job_result =
  ret :: "py_exc + bool"
  files :: "string set"
  out :: "event list"
  world :: 'w

text \<open>
  \<^verbatim>\<open>with console_lock: console.print(...)\<close> in a job that runs alone, so that the lock
  is free: the exception that the console raised, if any, what happened so far, and the
  outside world. A line that the console refused is not among the events.
\<close>

definition locked_print ::
  "'w env \<Rightarrow> event \<Rightarrow> event list \<Rightarrow> 'w \<Rightarrow> py_exc option \<times> event list \<times> 'w" where
  "locked_print env ev evs w =
     (case console_print env w (markup ev) of
        (None, w') \<Rightarrow> (None, evs @ [ev], w')
      | (Some x, w') \<Rightarrow> (Some x, evs, w'))"

text \<open>
  Lines 132 to 144: the handler, entered with the text \<open>e\<close> of the exception. Nothing
  catches what its own prints raise.
\<close>

definition except_handler ::
  "'w env \<Rightarrow> string \<Rightarrow> string \<Rightarrow> string set \<Rightarrow> event list \<Rightarrow> 'w \<Rightarrow> 'w job_result" where
  "except_handler env video_title e existing_files evs w =
     (let err = py_lower e
      in case locked_print env
                (if content_unavailable err then ContentNotAvailable
                 else ErrorDownloading video_title e) evs w of
           (Some x, evs1, w1) \<Rightarrow>
             \<lparr>ret = Inl x, files = existing_files, out = evs1, world = w1\<rparr>
         | (None, evs1, w1) \<Rightarrow>
             if content_unavailable err
             then (case locked_print env SkippingThisVideo (evs1 @ [Sleep 10]) w1 of
                     (Some x, evs2, w2) \<Rightarrow>
                       \<lparr>ret = Inl x, files = existing_files, out = evs2, world = w2\<rparr>
                   | (None, evs2, w2) \<Rightarrow>
                       \<lparr>ret = Inr False, files = existing_files, out = evs2, world = w2\<rparr>)
             else \<lparr>ret = Inr False, files = existing_files, out = evs1, world = w1\<rparr>)"

text \<open>
  Lines 128 to 131, reached when \<^verbatim>\<open>ydl.download\<close> returned, whatever it returned: the
  print of line 129, inside the \<^verbatim>\<open>try\<close>, then the insertion of line 130.
\<close>

definition after_download ::
  "'w env \<Rightarrow> string \<Rightarrow> string \<Rightarrow> string set \<Rightarrow> event list \<Rightarrow> 'w \<Rightarrow> 'w job_result" where
  "after_download env video_title filename existing_files evs w =
     (case locked_print env (Finished video_title) evs w of
        (Some (PyException e), evs1, w1) \<Rightarrow>
          except_handler env video_title e existing_files evs1 w1
      | (Some (PyBaseException e), evs1, w1) \<Rightarrow>
          \<lparr>ret = Inl (PyBaseException e), files = existing_files, out = evs1, world = w1\<rparr>
      | (None, evs1, w1) \<Rightarrow>
          \<lparr>ret = Inr True, files = insert filename existing_files, out = evs1, world = w1\<rparr>)"

text \<open>
  Lines 97 to 144. The prints of lines 104 and 123 stand outside the \<^verbatim>\<open>try\<close>: what they
  raise leaves the job. The value that \<^verbatim>\<open>ydl.download\<close> returns is not looked at
  (line 127). An absent key \<^verbatim>\<open>url\<close> raises a \<^verbatim>\<open>KeyError\<close> inside the \<^verbatim>\<open>try\<close>, before
  the call.
\<close>

definition download_video ::
  "'w env \<Rightarrow> entry \<Rightarrow> path \<Rightarrow> string set \<Rightarrow> 'w \<Rightarrow> 'w job_result" where
  "download_video env entry playlist_folder existing_files w =
     (let video_title = dict_get entry ''title'' ''unknown_title'';
          filename = mp3_filename entry
      in if filename \<in> existing_files
         then (case locked_print env (SkippingAlready video_title) [] w of
                 (Some x, evs, w1) \<Rightarrow>
                   \<lparr>ret = Inl x, files = existing_files, out = evs, world = w1\<rparr>
               | (None, evs, w1) \<Rightarrow>
                   \<lparr>ret = Inr True, files = existing_files, out = evs, world = w1\<rparr>)
         else
           (let output_path = playlist_folder @ [filename]
            in case locked_print env (Downloading video_title) [] w of
                 (Some x, evs, w1) \<Rightarrow>
                   \<lparr>ret = Inl x, files = existing_files, out = evs, world = w1\<rparr>
               | (None, evs, w1) \<Rightarrow>
                   (case entry ''url'' of
                      None \<Rightarrow> except_handler env video_title key_error_url existing_files evs w1
                    | Some url \<Rightarrow>
                        (case fetch env w1 url output_path of
                           (Returned, w2) \<Rightarrow>
                             after_download env video_title filename existing_files
                               (evs @ [Fetch url output_path]) w2
                         | (ReturnedError, w2) \<Rightarrow>
                             after_download env video_title filename existing_files
                               (evs @ [Fetch url output_path]) w2
                         | (Raised (PyException e), w2) \<Rightarrow>
                             except_handler env video_title e existing_files
                               (evs @ [Fetch url output_path]) w2
                         | (Raised (PyBaseException e), w2) \<Rightarrow>
                             \<lparr>ret = Inl (PyBaseException e), files = existing_files,
                              out = evs @ [Fetch url output_path], world = w2\<rparr>))))"

section \<open>The download job, step by step\<close>

text \<open>
  Where a job stands in \<^verbatim>\<open>download_video\<close>. Each \<^verbatim>\<open>with console_lock:\<close> block is two
  steps: taking the lock, then printing and giving the lock back.
\<close>

datatype pc =
    AtCheck
  | SkipLock
  | SkipPrint
  | DownloadingLock
  | DownloadingPrint
  | AtFetch
  | FinishedLock
  | FinishedPrint
  | AtAdd
  | ExceptLock string
  | ExceptPrint string
  | AtSleep
  | SkipVideoLock
  | SkipVideoPrint
  | Done "py_exc + bool"

text \<open>An access to the shared set: the test of line 102 or the insertion of line 130.\<close>

datatype index_access = Contains string | Add string

text \<open>
  The state shared by the jobs of one pool: the set \<^verbatim>\<open>existing_files\<close>, the holder of
  \<^verbatim>\<open>console_lock\<close> if it is taken, the console, the outside world, where each job stands,
  and, for the statements below, the accesses to the set in the order they happened, each
  with the number of its job.
\<close>

record 'w sys =
  sys_files :: "string set"
  console_lock :: "nat option"
  sys_console :: "event list"
  sys_world :: 'w
  pcs :: "pc list"
  index_log :: "(nat \<times> index_access) list"

text \<open>\<^verbatim>\<open>with console_lock:\<close> entered by job \<open>t\<close>; the job waits while the lock is taken.\<close>

definition acquire :: "nat \<Rightarrow> pc \<Rightarrow> 'w sys \<Rightarrow> 'w sys" where
  "acquire t next s =
     (case console_lock s of
        None \<Rightarrow> s\<lparr>console_lock := Some t, pcs := (pcs s)[t := next]\<rparr>
      | Some holder \<Rightarrow> s)"

text \<open>\<^verbatim>\<open>console.print\<close> inside the block, and the end of the block.\<close>

definition print_release :: "nat \<Rightarrow> event \<Rightarrow> pc \<Rightarrow> 'w sys \<Rightarrow> 'w sys" where
  "print_release t ev next s =
     s\<lparr>sys_console := sys_console s @ [ev], console_lock := None, pcs := (pcs s)[t := next]\<rparr>"

text \<open>
  One step of job \<open>t\<close>, which runs \<^verbatim>\<open>download_video\<close> on the entry \<open>jobs ! t\<close>. Every
  step is indivisible, as the interpreter makes a single test or insertion on a set.
  The console prints every line that it is given here; \<open>thread_step\<close> below is the
  step on a console that can raise.
\<close>

definition job_step :: "'w env \<Rightarrow> path \<Rightarrow> entry list \<Rightarrow> nat \<Rightarrow> 'w sys \<Rightarrow> 'w sys" where
  "job_step env playlist_folder jobs t s =
     (if t < length jobs \<and> t < length (pcs s)
      then
        (let entry = jobs ! t;
             video_title = dict_get entry ''title'' ''unknown_title'';
             filename = mp3_filename entry;
             output_path = playlist_folder @ [filename]
         in case pcs s ! t of
              AtCheck \<Rightarrow>
                s\<lparr>index_log := index_log s @ [(t, Contains filename)],
                  pcs := (pcs s)[t := (if filename \<in> sys_files s then SkipLock
                                       else DownloadingLock)]\<rparr>
            | SkipLock \<Rightarrow> acquire t SkipPrint s
            | SkipPrint \<Rightarrow> print_release t (SkippingAlready video_title) (Done (Inr True)) s
            | DownloadingLock \<Rightarrow> acquire t DownloadingPrint s
            | DownloadingPrint \<Rightarrow> print_release t (Downloading video_title) AtFetch s
            | AtFetch \<Rightarrow>
                (case entry ''url'' of
                   None \<Rightarrow> s\<lparr>pcs := (pcs s)[t := ExceptLock key_error_url]\<rparr>
                 | Some url \<Rightarrow>
                     (case fetch env (sys_world s) url output_path of
                        (Returned, w') \<Rightarrow>
                          s\<lparr>sys_console := sys_console s @ [Fetch url output_path],
                            sys_world := w', pcs := (pcs s)[t := FinishedLock]\<rparr>
                      | (ReturnedError, w') \<Rightarrow>
                          s\<lparr>sys_console := sys_console s @ [Fetch url output_path],
                            sys_world := w', pcs := (pcs s)[t := FinishedLock]\<rparr>
                      | (Raised (PyException e), w') \<Rightarrow>
                          s\<lparr>sys_console := sys_console s @ [Fetch url output_path],
                            sys_world := w', pcs := (pcs s)[t := ExceptLock e]\<rparr>
                      | (Raised (PyBaseException e), w') \<Rightarrow>
                          s\<lparr>sys_console := sys_console s @ [Fetch url output_path],
                            sys_world := w',
                            pcs := (pcs s)[t := Done (Inl (PyBaseException e))]\<rparr>))
            | FinishedLock \<Rightarrow> acquire t FinishedPrint s
            | FinishedPrint \<Rightarrow> print_release t (Finished video_title) AtAdd s
            | AtAdd \<Rightarrow>
                s\<lparr>sys_files := insert filename (sys_files s),
                  index_log := index_log s @ [(t, Add filename)],
                  pcs := (pcs s)[t := Done (Inr True)]\<rparr>
            | ExceptLock e \<Rightarrow> acquire t (ExceptPrint e) s
            | ExceptPrint e \<Rightarrow>
                (if content_unavailable (py_lower e)
                 then print_release t ContentNotAvailable AtSleep s
                 else print_release t (ErrorDownloading video_title e) (Done (Inr False)) s)
            | AtSleep \<Rightarrow>
                s\<lparr>sys_console := sys_console s @ [Sleep 10],
                  pcs := (pcs s)[t := SkipVideoLock]\<rparr>
            | SkipVideoLock \<Rightarrow> acquire t SkipVideoPrint s
            | SkipVideoPrint \<Rightarrow> print_release t SkippingThisVideo (Done (Inr False)) s
            | Done r \<Rightarrow> s)
      else s)"

text \<open>The jobs of the pool at their start, and a run under a schedule of job numbers.\<close>

definition start_jobs :: "entry list \<Rightarrow> string set \<Rightarrow> 'w \<Rightarrow> 'w sys" where
  "start_jobs jobs existing_files w =
     \<lparr>sys_files = existing_files, console_lock = None, sys_console = [], sys_world = w,
      pcs = map (\<lambda>entry. AtCheck) jobs, index_log = []\<rparr>"






section \<open>The worker pool of one collection (lines 205 to 220)\<close>

text \<open>
  The line that job \<open>t\<close> hands to the console at its next step, when it stands at a
  \<^verbatim>\<open>console.print\<close>.
\<close>

definition pending_line :: "entry list \<Rightarrow> nat \<Rightarrow> 'w sys \<Rightarrow> event option" where
  "pending_line jobs t s =
     (if t < length jobs \<and> t < length (pcs s)
      then
        (let video_title = dict_get (jobs ! t) ''title'' ''unknown_title''
         in case pcs s ! t of
              SkipPrint \<Rightarrow> Some (SkippingAlready video_title)
            | DownloadingPrint \<Rightarrow> Some (Downloading video_title)
            | FinishedPrint \<Rightarrow> Some (Finished video_title)
            | ExceptPrint e \<Rightarrow>
                Some (if content_unavailable (py_lower e) then ContentNotAvailable
                      else ErrorDownloading video_title e)
            | SkipVideoPrint \<Rightarrow> Some SkippingThisVideo
            | AtCheck \<Rightarrow> None
            | SkipLock \<Rightarrow> None
            | DownloadingLock \<Rightarrow> None
            | AtFetch \<Rightarrow> None
            | FinishedLock \<Rightarrow> None
            | AtAdd \<Rightarrow> None
            | ExceptLock e \<Rightarrow> None
            | AtSleep \<Rightarrow> None
            | SkipVideoLock \<Rightarrow> None
            | Done r \<Rightarrow> None)
      else None)"

text \<open>
  Where a job goes when the console raises \<open>x\<close> at its print: the print of line 129 is
  inside the \<^verbatim>\<open>try\<close>, so an \<^verbatim>\<open>Exception\<close> from it enters the handler with its text; every
  other exception ends the job, and stays in its future.
\<close>

definition after_raise :: "pc \<Rightarrow> py_exc \<Rightarrow> pc" where
  "after_raise p x =
     (if p = FinishedPrint
      then (case x of PyException e \<Rightarrow> ExceptLock e
                    | PyBaseException e \<Rightarrow> Done (Inl x))
      else Done (Inl x))"

text \<open>
  One step of a worker thread on job \<open>t\<close>. At a \<^verbatim>\<open>console.print\<close> the console is asked
  first: when it prints the line the step is that of \<open>job_step\<close>; when it raises, the
  \<^verbatim>\<open>with\<close> block gives the lock back and the exception goes its way.
\<close>

definition thread_step :: "'w env \<Rightarrow> path \<Rightarrow> entry list \<Rightarrow> nat \<Rightarrow> 'w sys \<Rightarrow> 'w sys" where
  "thread_step env playlist_folder jobs t s =
     (case pending_line jobs t s of
        None \<Rightarrow> job_step env playlist_folder jobs t s
      | Some ev \<Rightarrow>
          (case console_print env (sys_world s) (markup ev) of
             (None, w') \<Rightarrow> job_step env playlist_folder jobs t (s\<lparr>sys_world := w'\<rparr>)
           | (Some x, w') \<Rightarrow>
               s\<lparr>sys_world := w', console_lock := None,
                 pcs := (pcs s)[t := after_raise (pcs s ! t) x]\<rparr>))"

text \<open>
  The state of the pool while one collection is processed: the state shared by the
  threads, where job \<open>t\<close> is the call of \<^verbatim>\<open>download_video_threadsafe\<close> (line 146), which
  is \<^verbatim>\<open>download_video\<close>, on the entry \<open>submitted ! t\<close>; the entries submitted so far, one
  future each; and the count of the progress task. What a job returns or raises stays in
  its future, which the program never reads (it never calls \<^verbatim>\<open>future.result()\<close>).
\<close>

record 'w pool =
  threads :: "'w sys"
  submitted :: "entry list"
  completed :: nat

definition max_workers :: nat where
  "max_workers = 4"

definition unfinished :: "pc \<Rightarrow> bool" where
  "unfinished p = (case p of Done r \<Rightarrow> False | _ \<Rightarrow> True)"

text \<open>
  The pool has \<open>max_workers\<close> threads, which take the jobs in the order of submission: job
  \<open>t\<close> can take a step when fewer than \<open>max_workers\<close> of the jobs before it are unfinished.
\<close>

definition worker_step :: "'w env \<Rightarrow> path \<Rightarrow> nat \<Rightarrow> 'w pool \<Rightarrow> 'w pool" where
  "worker_step env playlist_folder t st =
     (if length (filter unfinished (take t (pcs (threads st)))) < max_workers
      then st\<lparr>threads := thread_step env playlist_folder (submitted st) t (threads st)\<rparr>
      else st)"

text \<open>The workers take the steps that the scheduler picks at this moment.\<close>

definition workers_run :: "'w env \<Rightarrow> path \<Rightarrow> 'w pool \<Rightarrow> 'w pool" where
  "workers_run env playlist_folder st =
     (case sched env (sys_world (threads st)) of
        (picks, w') \<Rightarrow>
          fold (worker_step env playlist_folder) picks
            (st\<lparr>threads := (threads st)\<lparr>sys_world := w'\<rparr>\<rparr>))"

text \<open>
  \<^verbatim>\<open>with console_lock: console.print(...)\<close> in the main thread (lines 213 and 214). When a
  job holds the lock the main thread waits for it: the job prints and gives the lock back.
\<close>

definition main_print ::
  "'w env \<Rightarrow> path \<Rightarrow> event \<Rightarrow> 'w pool \<Rightarrow> py_exc option \<times> 'w pool" where
  "main_print env playlist_folder ev st =
     (let st1 = (case console_lock (threads st) of
                   None \<Rightarrow> st
                 | Some t \<Rightarrow>
                     st\<lparr>threads :=
                          thread_step env playlist_folder (submitted st) t (threads st)\<rparr>);
          s = threads st1
      in case console_print env (sys_world s) (markup ev) of
           (None, w') \<Rightarrow>
             (None, st1\<lparr>threads := s\<lparr>sys_console := sys_console s @ [ev], sys_world := w'\<rparr>\<rparr>)
         | (Some x, w') \<Rightarrow> (Some x, st1\<lparr>threads := s\<lparr>sys_world := w'\<rparr>\<rparr>))"

text \<open>
  Lines 209 to 217. Before each entry the workers may have taken steps of the jobs
  submitted so far, so the test of line 212 sees the set as they left it. An exception
  from the print of line 214 leaves the loop before the advance of line 215.
\<close>

fun submit_loop ::
  "'w env \<Rightarrow> path \<Rightarrow> entry list \<Rightarrow> 'w pool \<Rightarrow> py_exc option \<times> 'w pool" where
  "submit_loop env playlist_folder [] st = (None, st)"
| "submit_loop env playlist_folder (entry # entries) st =
     (let st1 = workers_run env playlist_folder st;
          filename = mp3_filename entry
      in if filename \<in> sys_files (threads st1)
         then (case main_print env playlist_folder
                      (SkippingAlready (dict_get entry ''title'' ''unknown'')) st1 of
                 (Some x, st2) \<Rightarrow> (Some x, st2)
               | (None, st2) \<Rightarrow>
                   submit_loop env playlist_folder entries
                     (st2\<lparr>completed := Suc (completed st2)\<rparr>))
         else submit_loop env playlist_folder entries
                (st1\<lparr>threads := (threads st1)\<lparr>pcs := pcs (threads st1) @ [AtCheck]\<rparr>,
                      submitted := submitted st1 @ [entry]\<rparr>))"

text \<open>
  The program waits for the submitted jobs, in \<^verbatim>\<open>as_completed\<close> (line 219) and at the end
  of the \<^verbatim>\<open>with\<close> block of the executor: the workers take the steps that the scheduler
  picks, the job that holds the lock gives it back, and then every job takes the steps
  that it has left, eleven at most.
\<close>

definition finish_jobs :: "'w env \<Rightarrow> path \<Rightarrow> 'w pool \<Rightarrow> 'w pool" where
  "finish_jobs env playlist_folder st =
     (let st1 = workers_run env playlist_folder st;
          st2 = (case console_lock (threads st1) of
                   None \<Rightarrow> st1
                 | Some t \<Rightarrow>
                     st1\<lparr>threads :=
                           thread_step env playlist_folder (submitted st1) t (threads st1)\<rparr>)
      in fold (worker_step env playlist_folder)
           (concat (map (replicate 11) [0..<length (submitted st2)])) st2)"

text \<open>
  Lines 205 to 220: the progress task starts at zero, with no future. When the loop of
  line 209 ends, \<^verbatim>\<open>as_completed\<close> yields every finished future once, with one advance for
  each (lines 219 and 220). When an exception leaves the loop, the \<^verbatim>\<open>with\<close> block of the
  executor still waits for the jobs, and line 220 is not reached.
\<close>

definition process_entries ::
  "'w env \<Rightarrow> path \<Rightarrow> entry list \<Rightarrow> string set \<Rightarrow> 'w \<Rightarrow> py_exc option \<times> 'w pool" where
  "process_entries env playlist_folder entries existing_files w =
     (case submit_loop env playlist_folder entries
             \<lparr>threads = start_jobs [] existing_files w, submitted = [], completed = 0\<rparr> of
        (Some x, st) \<Rightarrow> (Some x, finish_jobs env playlist_folder st)
      | (None, st) \<Rightarrow>
          (let st1 = finish_jobs env playlist_folder st
           in (None,
               st1\<lparr>completed :=
                     completed st1
                     + length (filter (\<lambda>p. \<not> unfinished p) (pcs (threads st1)))\<rparr>)))"

section \<open>The loop over the collections (lines 174 to 226)\<close>

text \<open>A print of the main thread outside the pool.\<close>

definition main_say ::
  "'w env \<Rightarrow> event \<Rightarrow> event list \<Rightarrow> 'w \<Rightarrow> py_exc option \<times> event list \<times> 'w" where
  "main_say env ev scr w =
     (case console_print env w (markup ev) of
        (None, w') \<Rightarrow> (None, scr @ [ev], w')
      | (Some x, w') \<Rightarrow> (Some x, scr, w'))"

text \<open>
  Lines 179 to 222, the body of the \<^verbatim>\<open>try\<close>: the exception that ends it, if any, what
  was printed, and the outside world.
\<close>

definition try_playlist ::
  "'w env \<Rightarrow> path \<Rightarrow> string \<Rightarrow> event list \<Rightarrow> 'w \<Rightarrow> py_exc option \<times> event list \<times> 'w" where
  "try_playlist env output_path url scr w =
     (case extract_info env w url of
        (Inl e, w1) \<Rightarrow> (Some e, scr, w1)
      | (Inr info, w1) \<Rightarrow>
          (let playlist_title = (case info_title info of None \<Rightarrow> ''UnknownPlaylist'' | Some t \<Rightarrow> t);
               safe_title = sanitize_folder_name playlist_title;
               playlist_folder = output_path @ [safe_title]
           in case mkdir env w1 playlist_folder of
                (Some e, w2) \<Rightarrow> (Some e, scr, w2)
              | (None, w2) \<Rightarrow>
                  (let entries = (case info_entries info of None \<Rightarrow> [] | Some es \<Rightarrow> es)
                   in if entries = [] then main_say env (NoVideosFound playlist_title) scr w2
                      else
                        (case main_say env (PlaylistHeader playlist_title (length entries))
                                scr w2 of
                           (Some x, scr3, w3) \<Rightarrow> (Some x, scr3, w3)
                         | (None, scr3, w3) \<Rightarrow>
                             (case glob_mp3 env w3 playlist_folder of
                                (Inl e, w4) \<Rightarrow> (Some e, scr3, w4)
                              | (Inr names, w4) \<Rightarrow>
                                  (case process_entries env playlist_folder entries
                                          (set names) w4 of
                                     (Some x, st) \<Rightarrow>
                                       (Some x, scr3 @ sys_console (threads st),
                                        sys_world (threads st))
                                   | (None, st) \<Rightarrow>
                                       main_say env (CompletedPlaylist playlist_title)
                                         (scr3 @ sys_console (threads st))
                                         (sys_world (threads st))))))))"

text \<open>
  Lines 224 to 226: the handler of the loop, entered with the text \<open>e\<close> of the exception.
  Nothing catches what its own prints raise.
\<close>

definition playlist_handler ::
  "'w env \<Rightarrow> string \<Rightarrow> event list \<Rightarrow> 'w \<Rightarrow> py_exc option \<times> event list \<times> 'w" where
  "playlist_handler env e scr w =
     (case main_say env (FailedPlaylist e) scr w of
        (Some x, scr1, w1) \<Rightarrow> (Some x, scr1, w1)
      | (None, scr1, w1) \<Rightarrow> main_say env SkippingToNext scr1 w1)"

text \<open>
  Lines 175 to 226, one turn of the loop: the rule and the address, printed outside the
  \<^verbatim>\<open>try\<close>, then the \<^verbatim>\<open>try\<close> with its handler. An exception that is not an \<^verbatim>\<open>Exception\<close>
  passes the handler.
\<close>

definition one_playlist ::
  "'w env \<Rightarrow> path \<Rightarrow> nat \<Rightarrow> nat \<Rightarrow> string \<Rightarrow> event list \<Rightarrow> 'w
     \<Rightarrow> py_exc option \<times> event list \<times> 'w" where
  "one_playlist env output_path n_urls idx url scr w =
     (case main_say env (PlaylistRule idx n_urls) scr w of
        (Some x, scr1, w1) \<Rightarrow> (Some x, scr1, w1)
      | (None, scr1, w1) \<Rightarrow>
          (case main_say env (PlaylistUrl url) scr1 w1 of
             (Some x, scr2, w2) \<Rightarrow> (Some x, scr2, w2)
           | (None, scr2, w2) \<Rightarrow>
               (case try_playlist env output_path url scr2 w2 of
                  (None, scr3, w3) \<Rightarrow> (None, scr3, w3)
                | (Some (PyException e), scr3, w3) \<Rightarrow> playlist_handler env e scr3 w3
                | (Some (PyBaseException e), scr3, w3) \<Rightarrow>
                    (Some (PyBaseException e), scr3, w3))))"

text \<open>
  Lines 174 to 226: the loop. An exception that leaves a turn ends the loop and leaves
  \<^verbatim>\<open>main\<close>: the collections that remain are not processed.
\<close>

fun main_loop ::
  "'w env \<Rightarrow> path \<Rightarrow> nat \<Rightarrow> nat \<Rightarrow> string list \<Rightarrow> event list \<Rightarrow> 'w
     \<Rightarrow> py_exc option \<times> event list \<times> 'w" where
  "main_loop env output_path n_urls idx [] scr w = (None, scr, w)"
| "main_loop env output_path n_urls idx (url # urls) scr w =
     (case one_playlist env output_path n_urls idx url scr w of
        (None, scr1, w1) \<Rightarrow> main_loop env output_path n_urls (Suc idx) urls scr1 w1
      | (Some x, scr1, w1) \<Rightarrow> (Some x, scr1, w1))"

section \<open>The console of rich\<close>

text \<open>
  \<^verbatim>\<open>console.print\<close> reads its text as markup (\<^verbatim>\<open>rich.markup.render\<close>) and raises a
  \<^verbatim>\<open>MarkupError\<close>, an \<^verbatim>\<open>Exception\<close>, at a closing tag that closes nothing. The examples
  below run on a console that makes this check. A tag is what the expression
  \<^verbatim>\<open>((\\*)\[([a-z#/@][^[]*?)])\<close> finds: an opening bracket, a small letter or one of
  \<^verbatim>\<open>#\<close>, \<^verbatim>\<open>/\<close>, \<^verbatim>\<open>@\<close>, then the text up to the next closing bracket, with no opening
  bracket in it. An odd number of backslashes before the bracket makes it plain text.
\<close>

definition tag_start :: "char \<Rightarrow> bool" where
  "tag_start c = (c \<in> set ''abcdefghijklmnopqrstuvwxyz#/@'')"

text \<open>The text of the tag that starts at an opening bracket, given what follows it.\<close>

definition tag_at :: "string \<Rightarrow> string option" where
  "tag_at cs =
     (case cs of
        [] \<Rightarrow> None
      | c # ds \<Rightarrow>
          if tag_start c
          then (let tag_text = takeWhile (\<lambda>x. x \<noteq> CHR '']'' \<and> x \<noteq> CHR ''['') cs
                in case drop (length tag_text) cs of
                     [] \<Rightarrow> None
                   | d # es \<Rightarrow> if d = CHR '']'' then Some tag_text else None)
          else None)"

text \<open>\<^verbatim>\<open>str.strip()\<close>, for the white space of ASCII.\<close>

definition py_space :: "char \<Rightarrow> bool" where
  "py_space c =
     (c \<in> set [CHR '' '', CHR 0x09, CHR 0x0A, CHR 0x0B, CHR 0x0C, CHR 0x0D, CHR 0x1C, CHR 0x1D,
               CHR 0x1E, CHR 0x1F])"

definition py_strip :: "string \<Rightarrow> string" where
  "py_strip s = rev (dropWhile py_space (rev (dropWhile py_space s)))"

text \<open>
  \<^verbatim>\<open>Style.normalize\<close> on a name that is not the definition of a style: \<^verbatim>\<open>strip\<close> and
  \<^verbatim>\<open>lower\<close>. rich first tries to read the name as the definition of a style and brings
  it into one form (\<^verbatim>\<open>b\<close> becomes \<^verbatim>\<open>bold\<close>, the words are put in order), so it lets a
  closing tag match an opening tag that says the same style in other words; the console
  of the examples does not, and no text of the examples has two such tags.
\<close>

definition normalize_style :: "string \<Rightarrow> string" where
  "normalize_style style = py_lower (py_strip style)"

text \<open>
  One tag met at \<open>position\<close>, with the names of the open tags, the last opened first: the
  message of the \<^verbatim>\<open>MarkupError\<close>, or the open tags after it. A tag that starts with a
  slash closes: the open tag of its name that was opened last, or, when it has no name,
  the tag that was opened last. Any other tag opens. (rich also evaluates the parameters
  of a closed tag whose name starts with \<^verbatim>\<open>@\<close>, and can raise there; no line of the
  program and no text of the examples has such a tag.)
\<close>

definition apply_tag :: "nat \<Rightarrow> string \<Rightarrow> string list \<Rightarrow> string + string list" where
  "apply_tag position tag_text style_stack =
     (let name = takeWhile (\<lambda>c. c \<noteq> CHR ''='') tag_text
      in if take 1 name = ''/''
         then (let style_name = py_strip (drop 1 name)
               in if style_name \<noteq> []
                  then (if normalize_style style_name \<in> set style_stack
                        then Inr (remove1 (normalize_style style_name) style_stack)
                        else Inl (''closing tag '['' @ tag_text @ '']' at position ''
                                  @ py_str position @ '' doesn't match any open tag''))
                  else (case style_stack of
                          [] \<Rightarrow> Inl (''closing tag '[/]' at position '' @ py_str position
                                     @ '' has nothing to close'')
                        | open_tag # below \<Rightarrow> Inr below))
         else Inr (normalize_style name # style_stack))"

text \<open>
  The pass over the text: \<open>skip\<close> characters of a tag still to pass, the position, the
  number of backslashes just before it, the open tags.
\<close>

fun render :: "nat \<Rightarrow> nat \<Rightarrow> nat \<Rightarrow> string list \<Rightarrow> string \<Rightarrow> string option" where
  "render skip position escapes style_stack [] = None"
| "render skip position escapes style_stack (c # cs) =
     (if 0 < skip then render (skip - 1) (Suc position) 0 style_stack cs
      else if c = CHR 0x5C then render 0 (Suc position) (Suc escapes) style_stack cs
      else if c = CHR ''[''
      then (case tag_at cs of
              None \<Rightarrow> render 0 (Suc position) 0 style_stack cs
            | Some tag_text \<Rightarrow>
                if odd escapes
                then render (Suc (length tag_text)) (Suc position) 0 style_stack cs
                else (case apply_tag position tag_text style_stack of
                        Inl message \<Rightarrow> Some message
                      | Inr style_stack' \<Rightarrow>
                          render (Suc (length tag_text)) (Suc position) 0 style_stack' cs))
      else render 0 (Suc position) 0 style_stack cs)"

definition markup_error :: "string \<Rightarrow> string option" where
  "markup_error text = render 0 0 0 [] text"

definition rich_print :: "'w \<Rightarrow> string \<Rightarrow> py_exc option \<times> 'w" where
  "rich_print w text = (map_option PyException (markup_error text), w)"

section \<open>Backends for the examples\<close>

text \<open>
  Small worlds on which the theorems are run, all with the console above: a backend
  whose download always returns after writing the file, one whose download always raises
  an \<^verbatim>\<open>Exception\<close> with a given text, and one whose download always fails with an error
  that yt-dlp reports and ignores. They resolve no collection, find every directory empty
  and let the workers take no step early.
\<close>

definition backend_ok :: "unit env" where
  "backend_ok =
     \<lparr>extract_info = (\<lambda>w url. (Inl (PyException ''unresolved''), w)),
      mkdir = (\<lambda>w p. (None, w)),
      glob_mp3 = (\<lambda>w p. (Inr [], w)),
      fetch = (\<lambda>w url p. (Returned, w)),
      console_print = rich_print,
      sched = (\<lambda>w. ([], w))\<rparr>"

definition backend_raising :: "string \<Rightarrow> unit env" where
  "backend_raising msg = backend_ok\<lparr>fetch := (\<lambda>w url p. (Raised (PyException msg), w))\<rparr>"

definition backend_failing :: "unit env" where
  "backend_failing = backend_ok\<lparr>fetch := (\<lambda>w url p. (ReturnedError, w))\<rparr>"

text \<open>
  A backend for the loop over the collections: \<open>good\<close> resolves to a collection of one
  item, the directory of \<open>locked\<close> cannot be created, that of \<open>unreadable\<close> cannot be
  listed, \<open>tagged\<close> fails to resolve with a text that holds a closing tag, and every other
  address fails to resolve.
\<close>

definition backend_playlists :: "unit env" where
  "backend_playlists =
     backend_ok
       \<lparr>extract_info :=
          (\<lambda>w url.
             if url = ''good''
             then (Inr \<lparr>info_title = Some ''Mix'',
                        info_entries = Some [[''title'' \<mapsto> ''Song A'', ''url'' \<mapsto> ''u1'']]\<rparr>, w)
             else if url = ''locked''
             then (Inr \<lparr>info_title = Some ''Locked'', info_entries = None\<rparr>, w)
             else if url = ''unreadable''
             then (Inr \<lparr>info_title = None,
                        info_entries = Some [[''title'' \<mapsto> ''Song B'', ''url'' \<mapsto> ''u2'']]\<rparr>, w)
             else if url = ''tagged''
             then (Inl (PyException ''no playlist at [/x]''), w)
             else (Inl (PyException ''unresolved''), w)),
        mkdir :=
          (\<lambda>w p. if p = [''out'', ''Locked''] then (Some (PyException ''denied''), w)
                  else (None, w)),
        glob_mp3 :=
          (\<lambda>w p. if p = [''out'', ''UnknownPlaylist''] then (Inl (PyException ''io''), w)
                  else (Inr [], w))\<rparr>"

section \<open>Properties of the sanitizer\<close>

lemma underscore_not_reserved: "\<not> reserved (CHR ''_'')"
  by (simp add: reserved_def reserved_chars_def)

lemma sanitize_no_reserved: "c \<in> set (sanitize_folder_name s) \<Longrightarrow> \<not> reserved c"
  by (induction s rule: sanitize_folder_name.induct)
     (auto simp: underscore_not_reserved split: if_splits)

lemma sanitize_clean: "list_all (\<lambda>c. \<not> reserved c) s \<Longrightarrow> sanitize_folder_name s = s"
  by (induction s) auto

text \<open>
  C10. The name sanitizer is idempotent: sanitizing a sanitized name changes nothing,
  for every string.
\<close>

theorem sanitize_idempotent:
  "sanitize_folder_name (sanitize_folder_name s) = sanitize_folder_name s"
  by (rule sanitize_clean) (simp add: list_all_iff sanitize_no_reserved)

theorem sanitize_idempotent_witness:
  "sanitize_folder_name (sanitize_folder_name ''AC/DC: Back?'') = ''AC_DC_ Back_''
   \<and> sanitize_folder_name ''AC/DC: Back?'' = ''AC_DC_ Back_''"
  using sanitize_idempotent [of "''AC/DC: Back?''"]
  by (simp add: reserved_def reserved_chars_def)


section \<open>Properties of the download job\<close>

lemma str_in_iff: "str_in n h \<longleftrightarrow> (\<exists>p s. h = p @ n @ s)"
proof (induction h)
  case Nil
  then show ?case by auto
next
  case (Cons c cs)
  show ?case
  proof
    assume "str_in n (c # cs)"
    then consider "prefix n (c # cs)" | "str_in n cs" by auto
    then show "\<exists>p s. c # cs = p @ n @ s"
    proof cases
      case 1
      then obtain s where "c # cs = n @ s" by (auto simp: prefix_def)
      then have "c # cs = [] @ n @ s" by simp
      then show ?thesis by blast
    next
      case 2
      with Cons obtain p s where "cs = p @ n @ s" by auto
      then have "c # cs = (c # p) @ n @ s" by simp
      then show ?thesis by blast
    qed
  next
    assume "\<exists>p s. c # cs = p @ n @ s"
    then obtain p s where ps: "c # cs = p @ n @ s" by auto
    show "str_in n (c # cs)"
    proof (cases p)
      case Nil
      with ps have "prefix n (c # cs)" by (auto simp: prefix_def)
      then show ?thesis by simp
    next
      case (Cons a p')
      with ps have "cs = p' @ n @ s" by simp
      with Cons.IH have "str_in n cs" by blast
      then show ?thesis by simp
    qed
  qed
qed

lemma any_case_str_in:
  "msg = pre @ ph @ post \<Longrightarrow> py_lower ph = phrase \<Longrightarrow> str_in phrase (py_lower msg)"
  unfolding str_in_iff py_lower_def by (metis map_append)

lemma lower_of_any_case:
  "list_all2 (\<lambda>p c. c = p \<or> c = upper_char p) ps w \<Longrightarrow>
   list_all (\<lambda>p. lower_char p = p \<and> lower_char (upper_char p) = p) ps \<Longrightarrow>
   map lower_char w = ps"
  by (induction rule: list_all2_induct) auto

lemma any_case_try_again_later:
  "in_any_case ''try again later'' w \<Longrightarrow> py_lower w = ''try again later''"
  unfolding in_any_case_def py_lower_def
  by (erule lower_of_any_case) (simp add: lower_char_def upper_char_def)

lemma locked_print_printed:
  "console_print env w (markup ev) = (None, w') \<Longrightarrow>
   locked_print env ev evs w = (None, evs @ [ev], w')"
  by (simp add: locked_print_def)

lemma locked_print_raised:
  "console_print env w (markup ev) = (Some x, w') \<Longrightarrow>
   locked_print env ev evs w = (Some x, evs, w')"
  by (simp add: locked_print_def)

lemma except_handler_transient:
  assumes "content_unavailable (py_lower e)"
    and "console_print env w (markup ContentNotAvailable) = (None, w1)"
    and "console_print env w1 (markup SkippingThisVideo) = (None, w2)"
  shows "except_handler env video_title e existing_files evs w =
           \<lparr>ret = Inr False, files = existing_files,
            out = evs @ [ContentNotAvailable, Sleep 10, SkippingThisVideo], world = w2\<rparr>"
  using assms by (simp add: except_handler_def Let_def locked_print_def)

lemma except_handler_permanent:
  assumes "\<not> content_unavailable (py_lower e)"
    and "console_print env w (markup (ErrorDownloading video_title e)) = (None, w1)"
  shows "except_handler env video_title e existing_files evs w =
           \<lparr>ret = Inr False, files = existing_files,
            out = evs @ [ErrorDownloading video_title e], world = w1\<rparr>"
  using assms by (simp add: except_handler_def Let_def locked_print_def)

lemma except_handler_files:
  "files (except_handler env video_title e existing_files evs w) = existing_files"
  by (simp add: except_handler_def Let_def split: prod.splits option.splits)

lemma except_handler_not_true:
  "ret (except_handler env video_title e existing_files evs w) \<noteq> Inr True"
  by (simp add: except_handler_def Let_def split: prod.splits option.splits)

lemma after_download_files:
  "files (after_download env video_title filename existing_files evs w) = existing_files
   \<or> (ret (after_download env video_title filename existing_files evs w) = Inr True
      \<and> files (after_download env video_title filename existing_files evs w)
          = insert filename existing_files)"
  by (simp add: after_download_def except_handler_files
           split: prod.splits option.splits py_exc.splits)

lemma after_download_not_true:
  "ret (after_download env video_title filename existing_files evs w) \<noteq> Inr True \<Longrightarrow>
   files (after_download env video_title filename existing_files evs w) = existing_files"
  by (simp add: after_download_def except_handler_files
           split: prod.splits option.splits py_exc.splits)

lemma download_video_duplicate:
  assumes "mp3_filename entry \<in> existing_files"
  shows "download_video env entry playlist_folder existing_files w =
           (case locked_print env (SkippingAlready (dict_get entry ''title'' ''unknown_title''))
                   [] w of
              (Some x, evs, w1) \<Rightarrow>
                \<lparr>ret = Inl x, files = existing_files, out = evs, world = w1\<rparr>
            | (None, evs, w1) \<Rightarrow>
                \<lparr>ret = Inr True, files = existing_files, out = evs, world = w1\<rparr>)"
  using assms by (simp add: download_video_def Let_def)

lemma download_video_not_printed:
  assumes "mp3_filename entry \<notin> existing_files"
    and "console_print env w (markup (Downloading (dict_get entry ''title'' ''unknown_title'')))
           = (Some x, w1)"
  shows "download_video env entry playlist_folder existing_files w =
           \<lparr>ret = Inl x, files = existing_files, out = [], world = w1\<rparr>"
  using assms by (simp add: download_video_def Let_def locked_print_def)

lemma download_video_no_url:
  assumes "mp3_filename entry \<notin> existing_files"
    and "console_print env w (markup (Downloading (dict_get entry ''title'' ''unknown_title'')))
           = (None, w1)"
    and "entry ''url'' = None"
  shows "download_video env entry playlist_folder existing_files w =
           except_handler env (dict_get entry ''title'' ''unknown_title'') key_error_url
             existing_files [Downloading (dict_get entry ''title'' ''unknown_title'')] w1"
  using assms by (simp add: download_video_def Let_def locked_print_def)

lemma download_video_returned:
  assumes "mp3_filename entry \<notin> existing_files"
    and "console_print env w (markup (Downloading (dict_get entry ''title'' ''unknown_title'')))
           = (None, w1)"
    and "entry ''url'' = Some url"
    and "fetch env w1 url (playlist_folder @ [mp3_filename entry]) = (r, w2)"
    and "r = Returned \<or> r = ReturnedError"
  shows "download_video env entry playlist_folder existing_files w =
           after_download env (dict_get entry ''title'' ''unknown_title'') (mp3_filename entry)
             existing_files
             [Downloading (dict_get entry ''title'' ''unknown_title''),
              Fetch url (playlist_folder @ [mp3_filename entry])] w2"
  using assms by (auto simp: download_video_def Let_def locked_print_def)

lemma download_video_raised:
  assumes "mp3_filename entry \<notin> existing_files"
    and "console_print env w (markup (Downloading (dict_get entry ''title'' ''unknown_title'')))
           = (None, w1)"
    and "entry ''url'' = Some url"
    and "fetch env w1 url (playlist_folder @ [mp3_filename entry]) = (Raised (PyException e), w2)"
  shows "download_video env entry playlist_folder existing_files w =
           except_handler env (dict_get entry ''title'' ''unknown_title'') e existing_files
             [Downloading (dict_get entry ''title'' ''unknown_title''),
              Fetch url (playlist_folder @ [mp3_filename entry])] w2"
  using assms by (simp add: download_video_def Let_def locked_print_def)

lemma download_video_interrupted:
  assumes "mp3_filename entry \<notin> existing_files"
    and "console_print env w (markup (Downloading (dict_get entry ''title'' ''unknown_title'')))
           = (None, w1)"
    and "entry ''url'' = Some url"
    and "fetch env w1 url (playlist_folder @ [mp3_filename entry])
           = (Raised (PyBaseException e), w2)"
  shows "download_video env entry playlist_folder existing_files w =
           \<lparr>ret = Inl (PyBaseException e), files = existing_files,
            out = [Downloading (dict_get entry ''title'' ''unknown_title''),
                   Fetch url (playlist_folder @ [mp3_filename entry])], world = w2\<rparr>"
  using assms by (simp add: download_video_def Let_def locked_print_def)

lemma key_error_permanent: "\<not> content_unavailable (py_lower key_error_url)"
  by (simp add: content_unavailable_def py_lower_def key_error_url_def lower_char_def)


lemma duplicate_is_skipped:
  assumes "mp3_filename entry \<in> existing_files"
    and "console_print env w (markup (SkippingAlready (dict_get entry ''title'' ''unknown_title'')))
           = (None, w1)"
  shows "download_video env entry playlist_folder existing_files w =
           \<lparr>ret = Inr True, files = existing_files,
            out = [SkippingAlready (dict_get entry ''title'' ''unknown_title'')],
            world = w1\<rparr>"
  using assms by (simp add: download_video_duplicate locked_print_def)

text \<open>
  C1. The claim fails on the code at a title that holds a closing tag. The file name of
  the title \<^verbatim>\<open>Best of [/r/music]\<close> is in the set, so the job goes to the print of line
  104, which hands the title to the console inside the markup: the console raises, and
  the exception leaves \<^verbatim>\<open>download_video\<close>, which returns nothing. The title
  \<^verbatim>\<open>Song A\<close> in the same place is skipped as the claim says.
\<close>

theorem duplicate_skip_print_raises:
  "download_video backend_ok [''title'' \<mapsto> ''Best of [/r/music]'', ''url'' \<mapsto> ''u1'']
     [''out'', ''Mix''] {''Best of [_r_music].mp3''} () =
     \<lparr>ret = Inl (PyException
                   ''closing tag '[/r/music]' at position 70 doesn't match any open tag''),
      files = {''Best of [_r_music].mp3''}, out = [], world = ()\<rparr>
   \<and> download_video backend_ok [''title'' \<mapsto> ''Song A'', ''url'' \<mapsto> ''u1'']
       [''out'', ''Mix''] {''Song A.mp3''} () =
       \<lparr>ret = Inr True, files = {''Song A.mp3''}, out = [SkippingAlready ''Song A''],
        world = ()\<rparr>"
  by code_simp

lemma backend_error_is_caught:
  assumes "mp3_filename entry \<notin> existing_files"
    and "console_print env w (markup (Downloading (dict_get entry ''title'' ''unknown_title'')))
           = (None, w1)"
    and "entry ''url'' = Some url"
    and "fetch env w1 url (playlist_folder @ [mp3_filename entry]) = (Raised (PyException e), w2)"
    and "console_print env w2
           (markup (if content_unavailable (py_lower e) then ContentNotAvailable
                    else ErrorDownloading (dict_get entry ''title'' ''unknown_title'') e))
           = (None, w3)"
    and "console_print env w3 (markup SkippingThisVideo) = (None, w4)"
  shows "ret (download_video env entry playlist_folder existing_files w) = Inr False"
proof (cases "content_unavailable (py_lower e)")
  case True
  with assms show ?thesis
    by (simp add: download_video_raised except_handler_transient)
next
  case False
  with assms show ?thesis
    by (simp add: download_video_raised except_handler_permanent)
qed

text \<open>
  C2. The claim fails on the code at an error whose text holds a closing tag. The backend
  raises \<^verbatim>\<open>Exception('bad [/x] thing')\<close>; the handler catches it and prints its text
  inside the markup of line 138: the console raises inside the handler, and that exception
  leaves \<^verbatim>\<open>download_video\<close>. The error \<^verbatim>\<open>disk full\<close> in the same place is caught and
  turned into the value \<^verbatim>\<open>False\<close>.
\<close>

theorem handler_print_raises:
  "download_video (backend_raising ''bad [/x] thing'')
     [''title'' \<mapsto> ''Song A'', ''url'' \<mapsto> ''u1''] [''out'', ''Mix''] {} () =
     \<lparr>ret = Inl (PyException ''closing tag '[/x]' at position 50 doesn't match any open tag''),
      files = {},
      out = [Downloading ''Song A'', Fetch ''u1'' [''out'', ''Mix'', ''Song A.mp3'']],
      world = ()\<rparr>
   \<and> ret (download_video (backend_raising ''disk full'')
            [''title'' \<mapsto> ''Song A'', ''url'' \<mapsto> ''u1''] [''out'', ''Mix''] {} ()) = Inr False"
  by code_simp

lemma transient_classification:
  assumes "mp3_filename entry \<notin> existing_files"
    and "console_print env w (markup (Downloading (dict_get entry ''title'' ''unknown_title'')))
           = (None, w1)"
    and "entry ''url'' = Some url"
    and "fetch env w1 url (playlist_folder @ [mp3_filename entry])
           = (Raised (PyException msg), w2)"
  shows "msg = pre @ phrase @ post \<Longrightarrow> in_any_case ''try again later'' phrase \<Longrightarrow>
         console_print env w2 (markup ContentNotAvailable) = (None, w3) \<Longrightarrow>
         console_print env w3 (markup SkippingThisVideo) = (None, w4) \<Longrightarrow>
           download_video env entry playlist_folder existing_files w =
             \<lparr>ret = Inr False, files = existing_files,
              out = [Downloading (dict_get entry ''title'' ''unknown_title''),
                     Fetch url (playlist_folder @ [mp3_filename entry]),
                     ContentNotAvailable, Sleep 10, SkippingThisVideo],
              world = w4\<rparr>"
    and "\<not> str_in ''try again later'' (py_lower msg) \<Longrightarrow>
         \<not> str_in ''content isn't available'' (py_lower msg) \<Longrightarrow>
         console_print env w2
           (markup (ErrorDownloading (dict_get entry ''title'' ''unknown_title'') msg))
           = (None, w3) \<Longrightarrow>
           download_video env entry playlist_folder existing_files w =
             \<lparr>ret = Inr False, files = existing_files,
              out = [Downloading (dict_get entry ''title'' ''unknown_title''),
                     Fetch url (playlist_folder @ [mp3_filename entry]),
                     ErrorDownloading (dict_get entry ''title'' ''unknown_title'') msg],
              world = w3\<rparr>"
proof -
  assume m: "msg = pre @ phrase @ post" and c: "in_any_case ''try again later'' phrase"
    and p1: "console_print env w2 (markup ContentNotAvailable) = (None, w3)"
    and p2: "console_print env w3 (markup SkippingThisVideo) = (None, w4)"
  from c have "py_lower phrase = ''try again later''"
    by (rule any_case_try_again_later)
  with m have "str_in ''try again later'' (py_lower msg)"
    by (rule any_case_str_in)
  then have "content_unavailable (py_lower msg)"
    by (simp add: content_unavailable_def)
  then show "download_video env entry playlist_folder existing_files w =
             \<lparr>ret = Inr False, files = existing_files,
              out = [Downloading (dict_get entry ''title'' ''unknown_title''),
                     Fetch url (playlist_folder @ [mp3_filename entry]),
                     ContentNotAvailable, Sleep 10, SkippingThisVideo],
              world = w4\<rparr>"
    using assms p1 p2 by (simp add: download_video_raised except_handler_transient)
next
  assume "\<not> str_in ''try again later'' (py_lower msg)"
    and "\<not> str_in ''content isn't available'' (py_lower msg)"
    and p: "console_print env w2
           (markup (ErrorDownloading (dict_get entry ''title'' ''unknown_title'') msg))
           = (None, w3)"
  then have "\<not> content_unavailable (py_lower msg)"
    by (simp add: content_unavailable_def)
  then show "download_video env entry playlist_folder existing_files w =
             \<lparr>ret = Inr False, files = existing_files,
              out = [Downloading (dict_get entry ''title'' ''unknown_title''),
                     Fetch url (playlist_folder @ [mp3_filename entry]),
                     ErrorDownloading (dict_get entry ''title'' ''unknown_title'') msg],
              world = w3\<rparr>"
    using assms p by (simp add: download_video_raised except_handler_permanent)
qed

text \<open>
  C3. The claim fails on the code at an error that holds neither phrase and holds a
  closing tag. For \<^verbatim>\<open>Exception('disk full [/dev/sda1]')\<close> the handler takes the branch of
  the permanent failure and prints the text inside the markup of line 138: the console
  raises, and the job returns no failure value. The texts \<^verbatim>\<open>disk full\<close> and
  \<^verbatim>\<open>Please TRY again Later.\<close> in the same place are classified as the claim says.
\<close>

theorem permanent_error_print_raises:
  "download_video (backend_raising ''disk full [/dev/sda1]'')
     [''title'' \<mapsto> ''Song A'', ''url'' \<mapsto> ''u1''] [''out'', ''Mix''] {} () =
     \<lparr>ret = Inl (PyException
                   ''closing tag '[/dev/sda1]' at position 56 doesn't match any open tag''),
      files = {},
      out = [Downloading ''Song A'', Fetch ''u1'' [''out'', ''Mix'', ''Song A.mp3'']],
      world = ()\<rparr>
   \<and> download_video (backend_raising ''disk full'')
       [''title'' \<mapsto> ''Song A'', ''url'' \<mapsto> ''u1''] [''out'', ''Mix''] {} () =
       \<lparr>ret = Inr False, files = {},
        out = [Downloading ''Song A'', Fetch ''u1'' [''out'', ''Mix'', ''Song A.mp3''],
               ErrorDownloading ''Song A'' ''disk full''],
        world = ()\<rparr>
   \<and> download_video (backend_raising ''Please TRY again Later.'')
       [''title'' \<mapsto> ''Song A'', ''url'' \<mapsto> ''u1''] [''out'', ''Mix''] {} () =
       \<lparr>ret = Inr False, files = {},
        out = [Downloading ''Song A'', Fetch ''u1'' [''out'', ''Mix'', ''Song A.mp3''],
               ContentNotAvailable, Sleep 10, SkippingThisVideo],
        world = ()\<rparr>"
  by code_simp

lemma index_changes_only_after_return:
  "(files (download_video env entry playlist_folder existing_files w) \<noteq> existing_files \<longrightarrow>
      mp3_filename entry \<notin> existing_files
      \<and> (\<exists>url r w2. entry ''url'' = Some url
            \<and> fetch env
                 (snd (console_print env w
                         (markup (Downloading (dict_get entry ''title'' ''unknown_title'')))))
                 url (playlist_folder @ [mp3_filename entry]) = (r, w2)
            \<and> (r = Returned \<or> r = ReturnedError))
      \<and> ret (download_video env entry playlist_folder existing_files w) = Inr True
      \<and> files (download_video env entry playlist_folder existing_files w)
          = insert (mp3_filename entry) existing_files)
   \<and> (ret (download_video env entry playlist_folder existing_files w) \<noteq> Inr True \<longrightarrow>
        files (download_video env entry playlist_folder existing_files w) = existing_files)"
proof (cases "mp3_filename entry \<in> existing_files")
  case True
  then show ?thesis
    by (simp add: download_video_duplicate split: prod.splits option.splits)
next
  case nodup: False
  obtain p w1 where
    pr: "console_print env w (markup (Downloading (dict_get entry ''title'' ''unknown_title'')))
           = (p, w1)"
    by (cases "console_print env w
                 (markup (Downloading (dict_get entry ''title'' ''unknown_title'')))") simp
  show ?thesis
  proof (cases p)
    case (Some x)
    with nodup pr show ?thesis by (simp add: download_video_not_printed)
  next
    case None
    show ?thesis
    proof (cases "entry ''url''")
      case no_url: None
      with nodup pr None show ?thesis
        by (simp add: download_video_no_url except_handler_files)
    next
      case (Some url)
      obtain r w2 where
        f: "fetch env w1 url (playlist_folder @ [mp3_filename entry]) = (r, w2)"
        by (cases "fetch env w1 url (playlist_folder @ [mp3_filename entry])") simp
      show ?thesis
      proof (cases r)
        case Returned
        with nodup pr None Some f
        have "download_video env entry playlist_folder existing_files w =
                after_download env (dict_get entry ''title'' ''unknown_title'')
                  (mp3_filename entry) existing_files
                  [Downloading (dict_get entry ''title'' ''unknown_title''),
                   Fetch url (playlist_folder @ [mp3_filename entry])] w2"
          by (simp add: download_video_returned)
        with nodup pr None Some f Returned show ?thesis
          using after_download_files after_download_not_true by (metis snd_conv)
      next
        case ReturnedError
        with nodup pr None Some f
        have "download_video env entry playlist_folder existing_files w =
                after_download env (dict_get entry ''title'' ''unknown_title'')
                  (mp3_filename entry) existing_files
                  [Downloading (dict_get entry ''title'' ''unknown_title''),
                   Fetch url (playlist_folder @ [mp3_filename entry])] w2"
          by (simp add: download_video_returned)
        with nodup pr None Some f ReturnedError show ?thesis
          using after_download_files after_download_not_true by (metis snd_conv)
      next
        case (Raised x)
        with nodup pr None Some f show ?thesis
          by (cases x)
             (simp_all add: download_video_raised download_video_interrupted
                except_handler_files)
      qed
    qed
  qed
qed

text \<open>
  C4. The claim fails on the code at a download that fails. With the option
  \<^verbatim>\<open>'ignoreerrors': True\<close> the call \<^verbatim>\<open>ydl.download\<close> returns after an error of the
  download, and the job does not look at what it returns: it prints the line of
  success, inserts the file name into the set and returns \<^verbatim>\<open>True\<close>.
\<close>

theorem failed_download_is_indexed:
  "download_video backend_failing [''title'' \<mapsto> ''Song A'', ''url'' \<mapsto> ''u1'']
     [''out'', ''Mix''] {} () =
     \<lparr>ret = Inr True, files = {''Song A.mp3''},
      out = [Downloading ''Song A'', Fetch ''u1'' [''out'', ''Mix'', ''Song A.mp3''],
             Finished ''Song A''],
      world = ()\<rparr>"
  by code_simp

text \<open>
  C7, as the code has it. A descriptor without the key \<^verbatim>\<open>url\<close>, whose lines the console
  prints, fails inside the \<^verbatim>\<open>try\<close> block with a \<^verbatim>\<open>KeyError\<close> before the backend is called:
  the job returns \<^verbatim>\<open>False\<close>, reports the error with the text of the \<^verbatim>\<open>KeyError\<close>, does
  not sleep and does not change the set of existing files. The code has no test of its own
  on the source reference: an empty one is handed to the backend as it is.
\<close>

theorem absent_url_fails_without_fetch:
  assumes "mp3_filename entry \<notin> existing_files" and "entry ''url'' = None"
    and "console_print env w (markup (Downloading (dict_get entry ''title'' ''unknown_title'')))
           = (None, w1)"
    and "console_print env w1
           (markup (ErrorDownloading (dict_get entry ''title'' ''unknown_title'') key_error_url))
           = (None, w2)"
  shows "download_video env entry playlist_folder existing_files w =
           \<lparr>ret = Inr False, files = existing_files,
            out = [Downloading (dict_get entry ''title'' ''unknown_title''),
                   ErrorDownloading (dict_get entry ''title'' ''unknown_title'') key_error_url],
            world = w2\<rparr>"
  using assms by (simp add: download_video_no_url except_handler_permanent key_error_permanent)

theorem absent_url_fails_without_fetch_witness:
  "mp3_filename [''title'' \<mapsto> ''Song A''] \<notin> {}
   \<and> [''title'' \<mapsto> ''Song A''] ''url'' = None
   \<and> console_print backend_ok () (markup (Downloading ''Song A'')) = (None, ())
   \<and> console_print backend_ok () (markup (ErrorDownloading ''Song A'' key_error_url)) = (None, ())
   \<and> download_video backend_ok [''title'' \<mapsto> ''Song A''] [''out'', ''Mix''] {} () =
       \<lparr>ret = Inr False, files = {},
        out = [Downloading ''Song A'', ErrorDownloading ''Song A'' key_error_url],
        world = ()\<rparr>"
proof -
  have a: "mp3_filename [''title'' \<mapsto> ''Song A''] \<notin> {}" by simp
  have b: "[''title'' \<mapsto> ''Song A''] ''url'' = None" by simp
  have t: "dict_get [''title'' \<mapsto> ''Song A''] ''title'' ''unknown_title'' = ''Song A''"
    by (simp add: dict_get_def)
  have c: "console_print backend_ok () (markup (Downloading ''Song A'')) = (None, ())"
    by code_simp
  have d: "console_print backend_ok ()
             (markup (ErrorDownloading ''Song A'' key_error_url)) = (None, ())"
    by code_simp
  have c': "console_print backend_ok ()
              (markup (Downloading (dict_get [''title'' \<mapsto> ''Song A''] ''title''
                 ''unknown_title''))) = (None, ())"
    by (simp only: t c)
  have d': "console_print backend_ok ()
              (markup (ErrorDownloading (dict_get [''title'' \<mapsto> ''Song A''] ''title''
                 ''unknown_title'') key_error_url)) = (None, ())"
    by (simp only: t d)
  have r: "download_video backend_ok [''title'' \<mapsto> ''Song A''] [''out'', ''Mix''] {} () =
       \<lparr>ret = Inr False, files = {},
        out = [Downloading ''Song A'', ErrorDownloading ''Song A'' key_error_url],
        world = ()\<rparr>"
    using absent_url_fails_without_fetch [OF a b c' d', of "[''out'', ''Mix'']"]
    by (simp only: t)
  from a b c d r show ?thesis by (intro conjI)
qed

text \<open>
  The claim C7 as the specification states it fails: with an empty source reference and a
  backend whose download returns, the backend is called with the empty reference and the
  job ends as a success.
\<close>

theorem empty_url_counterexample:
  "[''title'' \<mapsto> ''Song A'', ''url'' \<mapsto> []] ''url'' = Some []
   \<and> download_video backend_ok [''title'' \<mapsto> ''Song A'', ''url'' \<mapsto> []] [''out'', ''Mix''] {} () =
       \<lparr>ret = Inr True, files = {''Song A.mp3''},
        out = [Downloading ''Song A'', Fetch [] [''out'', ''Mix'', ''Song A.mp3''],
               Finished ''Song A''],
        world = ()\<rparr>"
  by code_simp

text \<open>
  C9, as the code has it. \<^verbatim>\<open>entry.get('title', 'unknown_title')\<close> replaces a title that
  is missing; a title that is present is used as it is, the empty one included.
\<close>

theorem missing_title_filename:
  "mp3_filename entry =
     (case entry ''title'' of
        None \<Rightarrow> ''unknown_title.mp3''
      | Some t \<Rightarrow> sanitize_folder_name t @ ''.mp3'')"
  by (simp add: mp3_filename_def dict_get_def reserved_def reserved_chars_def
           split: option.splits)

theorem missing_title_filename_witness:
  "mp3_filename [''url'' \<mapsto> ''u1''] = ''unknown_title.mp3''
   \<and> mp3_filename [''title'' \<mapsto> [], ''url'' \<mapsto> ''u1''] = ''.mp3''"
  using missing_title_filename [of "[''url'' \<mapsto> ''u1'']"]
        missing_title_filename [of "[''title'' \<mapsto> [], ''url'' \<mapsto> ''u1'']"]
  by simp

text \<open>
  The claim C9 as the specification states it fails for the empty title: the file name is
  not the sanitized placeholder with the extension.
\<close>

theorem empty_title_counterexample:
  "[''title'' \<mapsto> [], ''url'' \<mapsto> ''u1''] ''title'' = Some []
   \<and> mp3_filename [''title'' \<mapsto> [], ''url'' \<mapsto> ''u1'']
       \<noteq> sanitize_folder_name ''unknown_title'' @ ''.mp3''"
  by (simp add: mp3_filename_def dict_get_def reserved_def reserved_chars_def)

section \<open>Properties of the worker pool\<close>

text \<open>
  C6. The claim fails on the code at a title that is already downloaded and holds a
  closing tag. Both items of the collection are in the directory. The first is skipped
  with one advance. For the second, titled \<^verbatim>\<open>x [/y]\<close>, the print of line 214 hands the
  title to the console inside the markup: the console raises, the exception leaves the
  loop of line 209 before the advance of line 215, and the counter stays at one for two
  items. With the title \<^verbatim>\<open>Song B\<close>, not yet downloaded, in the same place the counter
  reaches two.
\<close>

theorem preskip_print_raises:
  "fst (process_entries backend_ok [''out'', ''Mix'']
     [[''title'' \<mapsto> ''Song A'', ''url'' \<mapsto> ''u1''], [''title'' \<mapsto> ''x [/y]'', ''url'' \<mapsto> ''u2'']]
     {''Song A.mp3'', ''x [_y].mp3''} ()) =
     Some (PyException ''closing tag '[/y]' at position 64 doesn't match any open tag'')
   \<and> completed (snd (process_entries backend_ok [''out'', ''Mix'']
        [[''title'' \<mapsto> ''Song A'', ''url'' \<mapsto> ''u1''], [''title'' \<mapsto> ''x [/y]'', ''url'' \<mapsto> ''u2'']]
        {''Song A.mp3'', ''x [_y].mp3''} ())) = 1
   \<and> sys_console (threads (snd (process_entries backend_ok [''out'', ''Mix'']
        [[''title'' \<mapsto> ''Song A'', ''url'' \<mapsto> ''u1''], [''title'' \<mapsto> ''x [/y]'', ''url'' \<mapsto> ''u2'']]
        {''Song A.mp3'', ''x [_y].mp3''} ()))) = [SkippingAlready ''Song A'']
   \<and> fst (process_entries backend_ok [''out'', ''Mix'']
        [[''title'' \<mapsto> ''Song A'', ''url'' \<mapsto> ''u1''], [''title'' \<mapsto> ''Song B'', ''url'' \<mapsto> ''u2'']]
        {''Song A.mp3''} ()) = None
   \<and> completed (snd (process_entries backend_ok [''out'', ''Mix'']
        [[''title'' \<mapsto> ''Song A'', ''url'' \<mapsto> ''u1''], [''title'' \<mapsto> ''Song B'', ''url'' \<mapsto> ''u2'']]
        {''Song A.mp3''} ())) = 2"
  by code_simp

section \<open>Properties of the loop over the collections\<close>

lemma main_say_printed:
  "console_print env w (markup ev) = (None, w') \<Longrightarrow>
   main_say env ev scr w = (None, scr @ [ev], w')"
  by (simp add: main_say_def)

lemma main_say_raised:
  "console_print env w (markup ev) = (Some x, w') \<Longrightarrow>
   main_say env ev scr w = (Some x, scr, w')"
  by (simp add: main_say_def)

lemma try_playlist_unresolved:
  "extract_info env w url = (Inl e, w1) \<Longrightarrow>
   try_playlist env output_path url scr w = (Some e, scr, w1)"
  by (simp add: try_playlist_def)

lemma try_playlist_no_directory:
  "extract_info env w url = (Inr info, w1) \<Longrightarrow>
   mkdir env w1
     (output_path
      @ [sanitize_folder_name
           (case info_title info of None \<Rightarrow> ''UnknownPlaylist'' | Some t \<Rightarrow> t)])
     = (Some e, w2) \<Longrightarrow>
   try_playlist env output_path url scr w = (Some e, scr, w2)"
  by (simp add: try_playlist_def Let_def)

lemma failed_collection_is_skipped:
  assumes "console_print env w (markup (PlaylistRule idx n_urls)) = (None, w1)"
    and "console_print env w1 (markup (PlaylistUrl url)) = (None, w2)"
    and "try_playlist env output_path url (scr @ [PlaylistRule idx n_urls, PlaylistUrl url]) w2
           = (Some (PyException e), scr3, w3)"
    and "console_print env w3 (markup (FailedPlaylist e)) = (None, w4)"
    and "console_print env w4 (markup SkippingToNext) = (None, w5)"
  shows "main_loop env output_path n_urls idx (url # urls) scr w =
           main_loop env output_path n_urls (Suc idx) urls
             (scr3 @ [FailedPlaylist e, SkippingToNext]) w5"
  using assms
  by (simp add: one_playlist_def playlist_handler_def main_say_def)

lemma failure_report_not_printed:
  assumes "console_print env w (markup (PlaylistRule idx n_urls)) = (None, w1)"
    and "console_print env w1 (markup (PlaylistUrl url)) = (None, w2)"
    and "try_playlist env output_path url (scr @ [PlaylistRule idx n_urls, PlaylistUrl url]) w2
           = (Some (PyException e), scr3, w3)"
    and "console_print env w3 (markup (FailedPlaylist e)) = (Some x, w4)"
  shows "main_loop env output_path n_urls idx (url # urls) scr w = (Some x, scr3, w4)"
  using assms
  by (simp add: one_playlist_def playlist_handler_def main_say_def)

text \<open>
  C5. The claim fails on the code at a resolution error whose text holds a closing tag.
  The first address fails to resolve with \<^verbatim>\<open>Exception('no playlist at [/x]')\<close>; the handler
  of line 224 catches it and prints its text inside the markup of line 225: the console
  raises inside the handler, the exception leaves the loop, and the second collection is
  not processed. With the text \<^verbatim>\<open>unresolved\<close> in the same place the loop goes on to the
  second collection, as the claim says.
\<close>

theorem failure_report_print_raises:
  "main_loop backend_playlists [''out''] 2 1 [''tagged'', ''good''] [] () =
     (Some (PyException ''closing tag '[/x]' at position 64 doesn't match any open tag''),
      [PlaylistRule 1 2, PlaylistUrl ''tagged''], ())
   \<and> main_loop backend_playlists [''out''] 2 1 [''bad'', ''good''] [] () =
       (None,
        [PlaylistRule 1 2, PlaylistUrl ''bad'', FailedPlaylist ''unresolved'', SkippingToNext,
         PlaylistRule 2 2, PlaylistUrl ''good'', PlaylistHeader ''Mix'' 1,
         Downloading ''Song A'', Fetch ''u1'' [''out'', ''Mix'', ''Song A.mp3''],
         Finished ''Song A'', CompletedPlaylist ''Mix''],
        ())"
  by code_simp

section \<open>Properties of the jobs run step by step\<close>
















end
